theory Spec2Isabelle
  imports Complex_Main
begin

section \<open>Data model of the signaling relay (app.py)\<close>

text \<open>
  A session identifier (\<open>request.sid\<close>) is a string assigned by the Socket.IO transport.
\<close>

type_synonym sid = string

text \<open>
  A Python \<open>str\<close> is a sequence of Unicode code points; a string decoded from JSON may
  hold any of them, lone surrogates (\<open>U+D800\<close> to \<open>U+DFFF\<close>) included. \<open>py\<close> reads an
  ASCII literal of the source, or a sid, as such a sequence.
\<close>

type_synonym pystr = "nat list"

definition py :: "string \<Rightarrow> pystr" where
  "py cs = map of_char cs"

definition surrogate :: "nat \<Rightarrow> bool" where
  "surrogate cp = (55296 \<le> cp \<and> cp \<le> 57343)"

text \<open>
  The \<open>message\<close> argument of \<open>handle_signal\<close> is whatever value the client emitted, decoded
  by the transport: a JSON value or a binary blob. In Python these are \<open>None\<close>, \<open>bool\<close>,
  \<open>int\<close>, \<open>float\<close>, \<open>str\<close>, \<open>bytes\<close>, \<open>list\<close> and \<open>dict\<close> (\<open>str\<close> keys, insertion
  ordered, each key once).
\<close>

datatype payload =
    PNone
  | PBool bool
  | PInt int
  | PFloat real
  | PStr pystr
  | PBytes "nat list"
  | PList "payload list"
  | PDict "(pystr \<times> payload) list"

text \<open>
  The exceptions the handlers can raise: \<open>AttributeError\<close> from \<open>message.get\<close> on a value
  that is not a dict, \<open>UnicodeEncodeError\<close> from \<open>print\<close> when \<open>sys.stdout\<close> cannot encode
  the line.
\<close>

datatype error = AttributeError | UnicodeEncodeError

text \<open>
  \<open>print(f"Received signal from {request.sid}: Type {v}")\<close> formats \<open>v\<close> with \<open>str\<close> and
  writes the line to \<open>sys.stdout\<close>, which encodes it; the write raises
  \<open>UnicodeEncodeError\<close> when the stream's encoding and error handler reject a code point
  of the line. Both are set by the locale and the environment of the process, not by
  app.py, so the stream is a parameter of the model: \<open>so c v\<close> tells whether the stream
  encodes the line for sid \<open>c\<close> and value \<open>v\<close>.
\<close>

type_synonym stdout = "sid \<Rightarrow> payload \<Rightarrow> bool"

text \<open>
  A UTF-8 stream with the \<open>strict\<close> error handler, Python's default on a UTF-8 locale.
  UTF-8 encodes every code point but the surrogates. A sid is an ASCII token; \<open>str\<close> of
  \<open>None\<close>, a \<open>bool\<close>, an \<open>int\<close>, a \<open>float\<close> or \<open>bytes\<close> is ASCII; \<open>str\<close> of a list or a
  dict is its \<open>repr\<close>, which writes the surrogates of nested strings as escapes. So the
  line is rejected exactly when the value is itself a \<open>str\<close> holding a surrogate.
\<close>

fun utf8_strict :: stdout where
  "utf8_strict c (PStr cs) = list_all (\<lambda>cp. \<not> surrogate cp) cs"
| "utf8_strict c v = True"

text \<open>
  \<open>connected_users\<close> is the module-level dict \<open>sid -> {"sid": sid}\<close>. \<open>rooms\<close> is the
  room membership kept by the Socket.IO server: for every room name the sids that joined
  it, in insertion order; a room that does not exist has no members.
\<close>

record state =
  connected_users :: "sid \<rightharpoonup> (string \<times> sid) list"
  rooms :: "string \<Rightarrow> sid list"

text \<open>One outbound packet: target sid, event name, data.\<close>

type_synonym send = "sid \<times> string \<times> payload"

definition target :: "send \<Rightarrow> sid" where
  "target x = fst x"

definition event_name :: "send \<Rightarrow> string" where
  "event_name x = fst (snd x)"

definition data :: "send \<Rightarrow> payload" where
  "data x = snd (snd x)"

text \<open>The state of a freshly started process: \<open>connected_users = {}\<close>, no rooms.\<close>

definition init_state :: state where
  "init_state = \<lparr>connected_users = Map.empty, rooms = (\<lambda>r. [])\<rparr>"

section \<open>The Flask-SocketIO primitives the handlers call\<close>

text \<open>
  \<open>join_room\<close>, \<open>leave_room\<close> and \<open>emit\<close> are functions of the Flask-SocketIO library,
  which app.py imports; their code is not part of the repository's source. Each is
  modelled from the specification's Room Directory and Transport Adapter.
\<close>

text \<open>
  Modelled from the spec: \<open>join_room\<close> (Flask-SocketIO, not in the source) is the
  directory's \<open>join\<close>: it adds the sid to the room's member set, creating the room if
  absent, and joining an already-joined sid is a no-op.
\<close>

definition join_room :: "string \<Rightarrow> sid \<Rightarrow> state \<Rightarrow> state" where
  "join_room room c s =
     s\<lparr>rooms := (rooms s)(room :=
          (if c \<in> set (rooms s room) then rooms s room else rooms s room @ [c]))\<rparr>"

text \<open>
  Modelled from the spec: \<open>leave_room\<close> (Flask-SocketIO, not in the source) is the
  directory's \<open>leave\<close>: it removes the sid from the room's member set if present and is
  a no-op if absent.
\<close>

definition leave_room :: "string \<Rightarrow> sid \<Rightarrow> state \<Rightarrow> state" where
  "leave_room room c s = s\<lparr>rooms := (rooms s)(room := removeAll c (rooms s room))\<rparr>"

text \<open>
  Modelled from the spec: \<open>emit\<close> with a \<open>room\<close> argument (Flask-SocketIO, not in the
  source) is the adapter's \<open>broadcast\<close>: one \<open>send\<close> of the event and its data to every
  member of the room other than the excluded sid, if one is given.
\<close>

definition emit :: "state \<Rightarrow> string \<Rightarrow> payload \<Rightarrow> string \<Rightarrow> sid option \<Rightarrow> send list" where
  "emit s ev d room skip_sid =
     map (\<lambda>t. (t, ev, d)) (filter (\<lambda>t. Some t \<noteq> skip_sid) (rooms s room))"

text \<open>
  \<open>message.get(key)\<close>: a dict returns the value stored under the key, or \<open>None\<close>; every
  other kind of value has no attribute \<open>get\<close> and the read raises \<open>AttributeError\<close>.
\<close>

fun py_get :: "payload \<Rightarrow> pystr \<Rightarrow> error + payload" where
  "py_get (PDict kvs) k = Inr (case map_of kvs k of None \<Rightarrow> PNone | Some v \<Rightarrow> v)"
| "py_get m k = Inl AttributeError"

section \<open>The event handlers\<close>

text \<open>
  Every handler takes the state and \<open>request.sid\<close> and returns either the exception it
  raised or the new state with the packets it sent. The \<open>print\<close> calls write to the log
  only; what is modelled of them is what can raise: the evaluation of their arguments
  and the write to \<open>sys.stdout\<close>. The lines of \<open>handle_connect\<close> and \<open>handle_disconnect\<close>
  hold fixed ASCII text and the sid, an ASCII token the server generated, which every
  stream encoding writes.

  \<^verbatim>\<open>
  def handle_connect():
      connected_users[request.sid] = {"sid": request.sid}
      join_room('chat_room')
  \<close>
\<close>

definition handle_connect :: "state \<Rightarrow> sid \<Rightarrow> error + state \<times> send list" where
  "handle_connect s c =
     (let s1 = s\<lparr>connected_users := (connected_users s)(c \<mapsto> [(''sid'', c)])\<rparr>;
          s2 = join_room ''chat_room'' c s1
      in Inr (s2, []))"

text \<open>
  \<^verbatim>\<open>
  def handle_disconnect():
      if request.sid in connected_users:
          del connected_users[request.sid]
      leave_room('chat_room')
      emit('user-left', {'sid': request.sid}, room='chat_room')
  \<close>
\<close>

definition handle_disconnect :: "state \<Rightarrow> sid \<Rightarrow> error + state \<times> send list" where
  "handle_disconnect s c =
     (let s1 = (if connected_users s c \<noteq> None
                then s\<lparr>connected_users := (connected_users s)(c := None)\<rparr> else s);
          s2 = leave_room ''chat_room'' c s1
      in Inr (s2, emit s2 ''user-left'' (PDict [(py ''sid'', PStr (py c))]) ''chat_room'' None))"

text \<open>
  \<^verbatim>\<open>
  def handle_signal(message):
      print(f"Received signal from {request.sid}: Type {message.get('type')}")
      emit('signal', message, room='chat_room', skip_sid=request.sid)
  \<close>
\<close>

definition handle_signal :: "stdout \<Rightarrow> state \<Rightarrow> sid \<Rightarrow> payload \<Rightarrow> error + state \<times> send list" where
  "handle_signal so s c message =
     (case py_get message (py ''type'') of
        Inl e \<Rightarrow> Inl e
      | Inr ty \<Rightarrow>
          if so c ty then Inr (s, emit s ''signal'' message ''chat_room'' (Some c))
          else Inl UnicodeEncodeError)"

text \<open>
  Modelled from the spec: the delivery of a relay event to \<open>handle_signal\<close> is done by the
  dispatcher of Flask-SocketIO, which is not in the source (\<open>handle_signal\<close> has no call
  site in app.py and reads \<open>request.sid\<close> from the dispatcher). It is the precondition of
  the specification's \<open>on_relay\<close>: the sender must currently exist in the Connection
  Registry and be a member of the default room; if not, the event is dropped, which is
  not an error.
\<close>

definition on_relay :: "stdout \<Rightarrow> state \<Rightarrow> sid \<Rightarrow> payload \<Rightarrow> error + state \<times> send list" where
  "on_relay so s c message =
     (if connected_users s c \<noteq> None \<and> c \<in> set (rooms s ''chat_room'')
      then handle_signal so s c message
      else Inr (s, []))"

section \<open>Event sequences\<close>

datatype event = Connect sid | Disconnect sid | Signal sid payload

fun dispatch :: "stdout \<Rightarrow> state \<Rightarrow> event \<Rightarrow> error + state \<times> send list" where
  "dispatch so s (Connect c) = handle_connect s c"
| "dispatch so s (Disconnect c) = handle_disconnect s c"
| "dispatch so s (Signal c m) = on_relay so s c m"

text \<open>
  The state a handler leaves behind: the returned state, or, when it raised, the state
  it was called in (no handler assigns anything before a statement that can raise).
\<close>

fun state_after :: "state \<Rightarrow> error + state \<times> send list \<Rightarrow> state" where
  "state_after s (Inl e) = s"
| "state_after s (Inr (s', out)) = s'"

fun sends_of :: "error + state \<times> send list \<Rightarrow> send list" where
  "sends_of (Inl e) = []"
| "sends_of (Inr (s', out)) = out"

fun run :: "stdout \<Rightarrow> state \<Rightarrow> event list \<Rightarrow> state" where
  "run so s [] = s"
| "run so s (e # es) = run so (state_after s (dispatch so s e)) es"

text \<open>
  Referential integrity: every sid in any room's member list is a key of
  \<open>connected_users\<close>.
\<close>

definition ref_integrity :: "state \<Rightarrow> bool" where
  "ref_integrity s = (\<forall>r. set (rooms s r) \<subseteq> dom (connected_users s))"

text \<open>No room other than \<open>chat_room\<close> has members.\<close>

definition only_chat_room :: "state \<Rightarrow> bool" where
  "only_chat_room s = (\<forall>r. r \<noteq> ''chat_room'' \<longrightarrow> rooms s r = [])"

text \<open>Membership is a set: no sid is listed twice in a room.\<close>

definition rooms_distinct :: "state \<Rightarrow> bool" where
  "rooms_distinct s = (\<forall>r. distinct (rooms s r))"

text \<open>
  Every registered sid carries the entry \<open>handle_connect\<close> stored for it and is a member
  of \<open>chat_room\<close>.
\<close>

definition registered_joined :: "state \<Rightarrow> bool" where
  "registered_joined s =
     (\<forall>c v. connected_users s c = Some v \<longrightarrow>
        v = [(''sid'', c)] \<and> c \<in> set (rooms s ''chat_room''))"

text \<open>\<open>isinstance(message, dict)\<close>.\<close>

fun is_dict :: "payload \<Rightarrow> bool" where
  "is_dict (PDict kvs) = True"
| "is_dict m = False"

section \<open>Basic facts about the primitives\<close>

lemma rooms_join_room:
  "rooms (join_room room c s) r =
     (if r = room then (if c \<in> set (rooms s r) then rooms s r else rooms s r @ [c])
      else rooms s r)"
  by (simp add: join_room_def)

lemma rooms_leave_room:
  "rooms (leave_room room c s) r = (if r = room then removeAll c (rooms s r) else rooms s r)"
  by (simp add: leave_room_def)

lemma connected_users_join_room [simp]:
  "connected_users (join_room room c s) = connected_users s"
  by (simp add: join_room_def)

lemma connected_users_leave_room [simp]:
  "connected_users (leave_room room c s) = connected_users s"
  by (simp add: leave_room_def)

lemma py_eq_iff [simp]: "py a = py b \<longleftrightarrow> a = b"
  unfolding py_def by (simp add: inj_map_eq_map inj_on_def)

lemma of_char_no_surrogate: "\<not> surrogate (of_char ch)"
proof -
  have "(of_char ch :: nat) < 256"
    by (cases ch) simp
  then show ?thesis
    unfolding surrogate_def by linarith
qed

lemma no_surrogate_py [simp]: "list_all (\<lambda>cp. \<not> surrogate cp) (py cs)"
  by (simp add: py_def list_all_iff of_char_no_surrogate)

lemma state_after_handle_signal: "state_after s (handle_signal so s c m) = s"
  by (cases "py_get m (py ''type'')") (simp_all add: handle_signal_def)

lemma state_after_on_relay: "state_after s (on_relay so s c m) = s"
  by (simp add: on_relay_def state_after_handle_signal)

section \<open>Referential integrity\<close>

text \<open>
  Leaving \<open>chat_room\<close> alone would not restore integrity for a sid that sits in another
  room, so the invariant carried along an event sequence also records that no handler
  ever populates a room other than \<open>chat_room\<close>.
\<close>

lemma only_chat_room_init: "only_chat_room init_state"
  by (simp add: only_chat_room_def init_state_def)

lemma only_chat_room_dispatch:
  assumes "only_chat_room s"
  shows "only_chat_room (state_after s (dispatch so s e))"
proof (cases e)
  case (Connect c)
  with assms show ?thesis
    by (simp add: only_chat_room_def handle_connect_def Let_def rooms_join_room)
next
  case (Disconnect c)
  with assms show ?thesis
    by (simp add: only_chat_room_def handle_disconnect_def Let_def rooms_leave_room)
next
  case (Signal c m)
  with assms show ?thesis by (simp add: state_after_on_relay)
qed

lemma ref_integrity_init: "ref_integrity init_state"
  by (simp add: ref_integrity_def init_state_def)

lemma ref_integrity_connect:
  assumes "ref_integrity s"
  shows "ref_integrity (state_after s (handle_connect s c))"
  using assms
  by (auto simp: ref_integrity_def handle_connect_def Let_def rooms_join_room)

lemma ref_integrity_disconnect:
  assumes "ref_integrity s" and "only_chat_room s"
  shows "ref_integrity (state_after s (handle_disconnect s c))"
proof -
  have "set (rooms (state_after s (handle_disconnect s c)) r)
          \<subseteq> dom (connected_users (state_after s (handle_disconnect s c)))" for r
  proof (cases "r = ''chat_room''")
    case True
    with assms(1) show ?thesis
      by (auto simp: ref_integrity_def handle_disconnect_def Let_def rooms_leave_room)
  next
    case False
    with assms(2) have "rooms s r = []"
      by (simp add: only_chat_room_def)
    with False show ?thesis
      by (simp add: handle_disconnect_def Let_def rooms_leave_room)
  qed
  then show ?thesis
    by (simp add: ref_integrity_def)
qed

lemma ref_integrity_dispatch:
  assumes "ref_integrity s" and "only_chat_room s"
  shows "ref_integrity (state_after s (dispatch so s e))"
proof (cases e)
  case (Connect c)
  with assms show ?thesis by (simp add: ref_integrity_connect)
next
  case (Disconnect c)
  with assms show ?thesis by (simp add: ref_integrity_disconnect)
next
  case (Signal c m)
  with assms show ?thesis by (simp add: state_after_on_relay)
qed

lemma ref_integrity_run:
  assumes "ref_integrity s" and "only_chat_room s"
  shows "ref_integrity (run so s es)"
  using assms
  by (induction es arbitrary: s)
     (simp_all add: ref_integrity_dispatch only_chat_room_dispatch)

text \<open>
  Claim C7. In every state reached from the empty initial state by any sequence of
  connect, disconnect and relay events, every sid that is a member of any room is a key
  of \<open>connected_users\<close>.
\<close>

theorem referential_integrity_reachable:
  "\<forall>r. set (rooms (run so init_state es) r) \<subseteq> dom (connected_users (run so init_state es))"
  using ref_integrity_run [OF ref_integrity_init only_chat_room_init, of so es]
  by (simp add: ref_integrity_def)

theorem referential_integrity_reachable_witness:
  "rooms (run utf8_strict init_state [Connect ''A'', Connect ''B'', Disconnect ''A'']) ''chat_room'' = [''B'']
   \<and> set (rooms (run utf8_strict init_state [Connect ''A'', Connect ''B'', Disconnect ''A'']) ''chat_room'')
       \<subseteq> dom (connected_users (run utf8_strict init_state [Connect ''A'', Connect ''B'', Disconnect ''A'']))"
  using referential_integrity_reachable
    [of utf8_strict "[Connect ''A'', Connect ''B'', Disconnect ''A'']"]
  by (simp add: init_state_def handle_connect_def handle_disconnect_def Let_def
      rooms_join_room rooms_leave_room)

section \<open>Further invariants of reachable states\<close>

lemma rooms_distinct_init: "rooms_distinct init_state"
  by (simp add: rooms_distinct_def init_state_def)

lemma rooms_distinct_dispatch:
  assumes "rooms_distinct s"
  shows "rooms_distinct (state_after s (dispatch so s e))"
proof (cases e)
  case (Connect c)
  with assms show ?thesis
    by (simp add: rooms_distinct_def handle_connect_def Let_def rooms_join_room)
next
  case (Disconnect c)
  with assms show ?thesis
    by (simp add: rooms_distinct_def handle_disconnect_def Let_def rooms_leave_room
        distinct_removeAll)
next
  case (Signal c m)
  with assms show ?thesis by (simp add: state_after_on_relay)
qed

lemma rooms_distinct_run:
  assumes "rooms_distinct s"
  shows "rooms_distinct (run so s es)"
  using assms
  by (induction es arbitrary: s) (simp_all add: rooms_distinct_dispatch)

lemma distinct_chat_room_reachable: "distinct (rooms (run so init_state es) ''chat_room'')"
  using rooms_distinct_run [OF rooms_distinct_init, of so es]
  by (simp add: rooms_distinct_def)

lemma registered_joined_init: "registered_joined init_state"
  by (simp add: registered_joined_def init_state_def)

lemma registered_joined_dispatch:
  assumes "registered_joined s"
  shows "registered_joined (state_after s (dispatch so s e))"
proof (cases e)
  case (Connect c)
  with assms show ?thesis
    by (auto simp: registered_joined_def handle_connect_def Let_def rooms_join_room)
next
  case (Disconnect c)
  with assms show ?thesis
    by (auto simp: registered_joined_def handle_disconnect_def Let_def rooms_leave_room)
next
  case (Signal c m)
  with assms show ?thesis by (simp add: state_after_on_relay)
qed

lemma registered_joined_run:
  assumes "registered_joined s"
  shows "registered_joined (run so s es)"
  using assms
  by (induction es arbitrary: s) (simp_all add: registered_joined_dispatch)

lemma registered_member_reachable:
  assumes "connected_users (run so init_state es) c \<noteq> None"
  shows "c \<in> set (rooms (run so init_state es) ''chat_room'')"
  using registered_joined_run [OF registered_joined_init, of so es] assms
  by (auto simp: registered_joined_def)

lemma member_registered_reachable:
  assumes "c \<in> set (rooms (run so init_state es) ''chat_room'')"
  shows "connected_users (run so init_state es) c \<noteq> None"
  using ref_integrity_run [OF ref_integrity_init only_chat_room_init, of so es] assms
  by (auto simp: ref_integrity_def)

section \<open>What a relay sends\<close>

lemma emit_skip:
  "emit s ev d room (Some c) = map (\<lambda>t. (t, ev, d)) (removeAll c (rooms s room))"
  by (simp add: emit_def removeAll_filter_not_eq eq_commute)

lemma emit_all: "emit s ev d room None = map (\<lambda>t. (t, ev, d)) (rooms s room)"
  by (simp add: emit_def)

lemma handle_signal_printed:
  assumes "py_get m (py ''type'') = Inr ty" and "so c ty"
  shows "handle_signal so s c m =
     Inr (s, map (\<lambda>t. (t, ''signal'', m)) (removeAll c (rooms s ''chat_room'')))"
  using assms by (simp add: handle_signal_def emit_skip)

lemma handle_signal_not_printed:
  assumes "py_get m (py ''type'') = Inr ty" and "\<not> so c ty"
  shows "handle_signal so s c m = Inl UnicodeEncodeError"
  using assms by (simp add: handle_signal_def)

lemma handle_signal_not_dict:
  assumes "\<not> is_dict m"
  shows "handle_signal so s c m = Inl AttributeError"
  using assms by (cases m) (simp_all add: handle_signal_def)

lemma sends_of_handle_signal_cases:
  "sends_of (handle_signal so s c m) = []
   \<or> sends_of (handle_signal so s c m)
       = map (\<lambda>t. (t, ''signal'', m)) (removeAll c (rooms s ''chat_room''))"
proof (cases "py_get m (py ''type'')")
  case (Inl e)
  then show ?thesis by (simp add: handle_signal_def)
next
  case (Inr ty)
  then show ?thesis
    by (cases "so c ty") (simp_all add: handle_signal_printed handle_signal_not_printed)
qed

lemma map_target_sends: "map target (map (\<lambda>t. (t, ev, d)) xs) = xs"
  by (simp add: target_def comp_def)

lemma length_removeAll_distinct:
  assumes "distinct xs"
  shows "length (removeAll c xs) = card (set xs - {c})"
proof -
  have "distinct (removeAll c xs)"
    using assms by (simp add: distinct_removeAll)
  then have "card (set (removeAll c xs)) = length (removeAll c xs)"
    by (rule distinct_card)
  then show ?thesis by simp
qed

lemmas run_eval =
  init_state_def handle_connect_def handle_disconnect_def handle_signal_def on_relay_def
  Let_def rooms_join_room rooms_leave_room emit_def

text \<open>
  Claim C1 (as amended). In every reachable state, for every relay event whose payload is
  a dict, whose log line can be written to the server's stdout, and whose sender is a
  member of \<open>chat_room\<close> with N other members: the event is delivered to the handler,
  which returns normally with exactly N packets, all named \<open>signal\<close>, one to each member
  other than the sender and none to the sender.
\<close>

theorem relay_excludes_sender:
  assumes "s = run so init_state es" and "c \<in> set (rooms s ''chat_room'')"
    and "py_get m (py ''type'') = Inr ty" and "so c ty"
  shows "on_relay so s c m = handle_signal so s c m
     \<and> \<not> isl (handle_signal so s c m)
     \<and> length (sends_of (handle_signal so s c m)) = card (set (rooms s ''chat_room'') - {c})
     \<and> distinct (map target (sends_of (handle_signal so s c m)))
     \<and> set (map target (sends_of (handle_signal so s c m))) = set (rooms s ''chat_room'') - {c}
     \<and> c \<notin> set (map target (sends_of (handle_signal so s c m)))
     \<and> (\<forall>x \<in> set (sends_of (handle_signal so s c m)). event_name x = ''signal'')"
proof -
  have d: "distinct (rooms s ''chat_room'')"
    using assms(1) by (simp add: distinct_chat_room_reachable)
  have reg: "connected_users s c \<noteq> None"
    using assms(1,2) member_registered_reachable [of c so es] by simp
  have res: "handle_signal so s c m =
      Inr (s, map (\<lambda>t. (t, ''signal'', m)) (removeAll c (rooms s ''chat_room'')))"
    using assms(3,4) by (rule handle_signal_printed)
  have out: "sends_of (handle_signal so s c m) =
      map (\<lambda>t. (t, ''signal'', m)) (removeAll c (rooms s ''chat_room''))"
    by (simp add: res)
  have tg: "map target (sends_of (handle_signal so s c m)) = removeAll c (rooms s ''chat_room'')"
    by (simp only: out map_target_sends)
  have "on_relay so s c m = handle_signal so s c m"
    using reg assms(2) by (simp add: on_relay_def)
  moreover have "\<not> isl (handle_signal so s c m)"
    by (simp add: res)
  moreover have "length (sends_of (handle_signal so s c m)) = card (set (rooms s ''chat_room'') - {c})"
    using length_removeAll_distinct [OF d, of c] by (simp add: out)
  moreover have "distinct (map target (sends_of (handle_signal so s c m)))"
    using d by (simp only: tg distinct_removeAll)
  moreover have "set (map target (sends_of (handle_signal so s c m))) = set (rooms s ''chat_room'') - {c}"
    by (simp only: tg set_removeAll)
  moreover have "c \<notin> set (map target (sends_of (handle_signal so s c m)))"
    by (simp only: tg set_removeAll) simp
  moreover have "\<forall>x \<in> set (sends_of (handle_signal so s c m)). event_name x = ''signal''"
    by (auto simp: out event_name_def)
  ultimately show ?thesis by blast
qed

theorem relay_excludes_sender_witness:
  "''A'' \<in> set (rooms (run utf8_strict init_state [Connect ''A'', Connect ''B'', Connect ''C''])
      ''chat_room'')
   \<and> utf8_strict ''A'' (PStr (py ''offer''))
   \<and> sends_of (handle_signal utf8_strict
        (run utf8_strict init_state [Connect ''A'', Connect ''B'', Connect ''C'']) ''A''
        (PDict [(py ''type'', PStr (py ''offer'')), (py ''sdp'', PStr (py ''v=0''))]))
     = [(''B'', ''signal'', PDict [(py ''type'', PStr (py ''offer'')), (py ''sdp'', PStr (py ''v=0''))]),
        (''C'', ''signal'', PDict [(py ''type'', PStr (py ''offer'')), (py ''sdp'', PStr (py ''v=0''))])]
   \<and> card (set (rooms (run utf8_strict init_state [Connect ''A'', Connect ''B'', Connect ''C''])
        ''chat_room'') - {''A''}) = 2
   \<and> length (sends_of (handle_signal utf8_strict
        (run utf8_strict init_state [Connect ''A'', Connect ''B'', Connect ''C'']) ''A''
        (PDict [(py ''type'', PStr (py ''offer'')), (py ''sdp'', PStr (py ''v=0''))])))
     = card (set (rooms (run utf8_strict init_state [Connect ''A'', Connect ''B'', Connect ''C''])
        ''chat_room'') - {''A''})"
proof -
  have m: "''A'' \<in> set (rooms (run utf8_strict init_state
      [Connect ''A'', Connect ''B'', Connect ''C'']) ''chat_room'')"
    by (simp add: run_eval)
  have g: "py_get (PDict [(py ''type'', PStr (py ''offer'')), (py ''sdp'', PStr (py ''v=0''))])
      (py ''type'') = Inr (PStr (py ''offer''))"
    by simp
  have p: "utf8_strict ''A'' (PStr (py ''offer''))"
    by simp
  show ?thesis
    using m p relay_excludes_sender [OF refl m g p]
    by (simp add: run_eval)
qed

text \<open>
  The claim as written covers every relay event. With \<open>A\<close> and \<open>B\<close> connected, a relay
  from \<open>A\<close> whose payload is the string \<open>offer\<close> raises at the logging read: one other
  member, no packet. So does, on a UTF-8 stdout, the dict \<open>{'type': '\ud800'}\<close>, at the
  write of the log line.
\<close>

theorem relay_excludes_sender_counterexample:
  "''A'' \<in> set (rooms (run utf8_strict init_state [Connect ''A'', Connect ''B'']) ''chat_room'')
   \<and> card (set (rooms (run utf8_strict init_state [Connect ''A'', Connect ''B'']) ''chat_room'')
        - {''A''}) = 1
   \<and> handle_signal utf8_strict (run utf8_strict init_state [Connect ''A'', Connect ''B'']) ''A''
        (PStr (py ''offer'')) = Inl AttributeError
   \<and> length (sends_of (handle_signal utf8_strict
        (run utf8_strict init_state [Connect ''A'', Connect ''B'']) ''A'' (PStr (py ''offer''))))
       \<noteq> card (set (rooms (run utf8_strict init_state [Connect ''A'', Connect ''B''])
            ''chat_room'') - {''A''})
   \<and> handle_signal utf8_strict (run utf8_strict init_state [Connect ''A'', Connect ''B'']) ''A''
        (PDict [(py ''type'', PStr [55296])]) = Inl UnicodeEncodeError"
  by (simp add: run_eval surrogate_def)

section \<open>A relay from a sender that is not connected\<close>



section \<open>The relayed payload\<close>

text \<open>
  Claim C3 (as amended). For every relay event whose payload is a dict and whose log line
  can be written to the server's stdout, in any state, the handler forwards the payload:
  it sends one \<open>signal\<close> packet to every member of \<open>chat_room\<close> other than the sender, and
  the data of each is the payload the sender submitted, unchanged. For every relay event
  whatsoever, no packet the handler sends carries anything but the submitted payload.
\<close>

theorem relay_payload_verbatim:
  "(\<forall>ty. py_get m (py ''type'') = Inr ty \<and> so c ty \<longrightarrow>
       handle_signal so s c m =
         Inr (s, map (\<lambda>t. (t, ''signal'', m)) (filter (\<lambda>t. t \<noteq> c) (rooms s ''chat_room''))))
   \<and> (\<forall>x \<in> set (sends_of (handle_signal so s c m)). data x = m)"
proof -
  have "handle_signal so s c m =
      Inr (s, map (\<lambda>t. (t, ''signal'', m)) (filter (\<lambda>t. t \<noteq> c) (rooms s ''chat_room'')))"
    if "py_get m (py ''type'') = Inr ty" and "so c ty" for ty
    using that handle_signal_printed [of m ty so c s]
    by (simp add: removeAll_filter_not_eq eq_commute)
  moreover have "\<forall>x \<in> set (sends_of (handle_signal so s c m)). data x = m"
    using sends_of_handle_signal_cases [of so s c m]
    by (auto simp: data_def)
  ultimately show ?thesis by blast
qed

theorem relay_payload_verbatim_witness:
  "py_get (PDict [(py ''type'', PStr (py ''answer'')), (py ''sdp'', PList [PInt 1, PNone])])
      (py ''type'') = Inr (PStr (py ''answer''))
   \<and> utf8_strict ''B'' (PStr (py ''answer''))
   \<and> handle_signal utf8_strict
        (run utf8_strict init_state [Connect ''A'', Connect ''B'', Connect ''C'']) ''B''
        (PDict [(py ''type'', PStr (py ''answer'')), (py ''sdp'', PList [PInt 1, PNone])])
     = Inr (run utf8_strict init_state [Connect ''A'', Connect ''B'', Connect ''C''],
        [(''A'', ''signal'',
            PDict [(py ''type'', PStr (py ''answer'')), (py ''sdp'', PList [PInt 1, PNone])]),
         (''C'', ''signal'',
            PDict [(py ''type'', PStr (py ''answer'')), (py ''sdp'', PList [PInt 1, PNone])])])"
proof -
  have g: "py_get (PDict [(py ''type'', PStr (py ''answer'')), (py ''sdp'', PList [PInt 1, PNone])])
      (py ''type'') = Inr (PStr (py ''answer''))"
    by simp
  have p: "utf8_strict ''B'' (PStr (py ''answer''))"
    by simp
  have r: "rooms (run utf8_strict init_state [Connect ''A'', Connect ''B'', Connect ''C''])
      ''chat_room'' = [''A'', ''B'', ''C'']"
    by (simp add: run_eval)
  show ?thesis
    using g p r relay_payload_verbatim [of
        "PDict [(py ''type'', PStr (py ''answer'')), (py ''sdp'', PList [PInt 1, PNone])]"
        utf8_strict "''B''"
        "run utf8_strict init_state [Connect ''A'', Connect ''B'', Connect ''C'']"]
    by simp
qed

text \<open>
  The claim as written covers every relay event. With \<open>A\<close> and \<open>B\<close> connected, \<open>A\<close> relays
  the list \<open>['candidate', 1]\<close>: \<open>B\<close> is a member other than the sender, the handler raises
  at the logging read, and the payload is not forwarded to \<open>B\<close>.
\<close>

theorem relay_payload_verbatim_counterexample:
  "rooms (run utf8_strict init_state [Connect ''A'', Connect ''B'']) ''chat_room'' = [''A'', ''B'']
   \<and> handle_signal utf8_strict (run utf8_strict init_state [Connect ''A'', Connect ''B'']) ''A''
        (PList [PStr (py ''candidate''), PInt 1]) = Inl AttributeError
   \<and> (''B'', ''signal'', PList [PStr (py ''candidate''), PInt 1])
       \<notin> set (sends_of (handle_signal utf8_strict
            (run utf8_strict init_state [Connect ''A'', Connect ''B'']) ''A''
            (PList [PStr (py ''candidate''), PInt 1])))"
  by (simp add: run_eval)

section \<open>Disconnecting\<close>

lemma handle_disconnect_result:
  "handle_disconnect s c =
     Inr (leave_room ''chat_room'' c
            (if connected_users s c \<noteq> None
             then s\<lparr>connected_users := (connected_users s)(c := None)\<rparr> else s),
          map (\<lambda>t. (t, ''user-left'', PDict [(py ''sid'', PStr (py c))]))
            (removeAll c (rooms s ''chat_room'')))"
  by (simp add: handle_disconnect_def Let_def emit_all rooms_leave_room)

lemma rooms_after_disconnect:
  "rooms (state_after s (handle_disconnect s c)) ''chat_room'' = removeAll c (rooms s ''chat_room'')"
  by (simp add: handle_disconnect_result rooms_leave_room)

lemma sends_of_disconnect:
  "sends_of (handle_disconnect s c) =
     map (\<lambda>t. (t, ''user-left'', PDict [(py ''sid'', PStr (py c))])) (removeAll c (rooms s ''chat_room''))"
  by (simp add: handle_disconnect_result)

text \<open>
  Claim C4. For every state and every connection \<open>c\<close>, \<open>handle_disconnect\<close> takes \<open>c\<close> out
  of \<open>chat_room\<close> first and computes the departure broadcast on the updated membership:
  the packets, all named \<open>user-left\<close>, go to exactly the remaining members and never to
  \<open>c\<close>.
\<close>

theorem disconnect_broadcast_excludes_self:
  "sends_of (handle_disconnect s c) =
       emit (state_after s (handle_disconnect s c)) ''user-left'' (PDict [(py ''sid'', PStr (py c))])
         ''chat_room'' None
   \<and> set (rooms (state_after s (handle_disconnect s c)) ''chat_room'')
       = set (rooms s ''chat_room'') - {c}
   \<and> map target (sends_of (handle_disconnect s c))
       = rooms (state_after s (handle_disconnect s c)) ''chat_room''
   \<and> c \<notin> set (map target (sends_of (handle_disconnect s c)))
   \<and> (\<forall>x \<in> set (sends_of (handle_disconnect s c)). event_name x = ''user-left'')"
proof -
  have "sends_of (handle_disconnect s c) =
      emit (state_after s (handle_disconnect s c)) ''user-left'' (PDict [(py ''sid'', PStr (py c))])
        ''chat_room'' None"
    by (simp add: emit_all rooms_after_disconnect sends_of_disconnect)
  moreover have "set (rooms (state_after s (handle_disconnect s c)) ''chat_room'')
      = set (rooms s ''chat_room'') - {c}"
    by (simp add: rooms_after_disconnect)
  moreover have tg: "map target (sends_of (handle_disconnect s c))
      = rooms (state_after s (handle_disconnect s c)) ''chat_room''"
    by (simp only: sends_of_disconnect rooms_after_disconnect map_target_sends)
  moreover have "c \<notin> set (map target (sends_of (handle_disconnect s c)))"
    by (simp add: tg rooms_after_disconnect)
  moreover have "\<forall>x \<in> set (sends_of (handle_disconnect s c)). event_name x = ''user-left''"
    by (auto simp: sends_of_disconnect event_name_def)
  ultimately show ?thesis by blast
qed

theorem disconnect_broadcast_excludes_self_witness:
  "rooms (run utf8_strict init_state [Connect ''A'', Connect ''B'', Connect ''C'']) ''chat_room''
     = [''A'', ''B'', ''C'']
   \<and> map target (sends_of (handle_disconnect
        (run utf8_strict init_state [Connect ''A'', Connect ''B'', Connect ''C'']) ''B'')) = [''A'', ''C'']
   \<and> map event_name (sends_of (handle_disconnect
        (run utf8_strict init_state [Connect ''A'', Connect ''B'', Connect ''C'']) ''B''))
     = [''user-left'', ''user-left'']
   \<and> ''B'' \<notin> set (map target (sends_of (handle_disconnect
        (run utf8_strict init_state [Connect ''A'', Connect ''B'', Connect ''C'']) ''B'')))"
  using disconnect_broadcast_excludes_self
    [of "run utf8_strict init_state [Connect ''A'', Connect ''B'', Connect ''C'']" "''B''"]
  by (simp add: run_eval target_def event_name_def)

section \<open>Connecting twice\<close>

lemma handle_connect_registered:
  assumes "connected_users s c = Some [(''sid'', c)]" and "c \<in> set (rooms s ''chat_room'')"
  shows "handle_connect s c = Inr (s, [])"
proof -
  have "(connected_users s)(c \<mapsto> [(''sid'', c)]) = connected_users s"
    using assms(1) by (rule map_upd_triv)
  with assms(2) show ?thesis
    by (simp add: handle_connect_def Let_def join_room_def)
qed

text \<open>
  Claim C5 (as amended). In every reachable state, \<open>handle_connect\<close> for a sid that is
  already registered raises no error: it succeeds silently, sends nothing and leaves
  \<open>connected_users\<close> and the room membership exactly as they were.
\<close>

theorem connect_registered_succeeds:
  assumes "s = run so init_state es" and "connected_users s c \<noteq> None"
  shows "handle_connect s c = Inr (s, [])"
proof -
  have "registered_joined s"
    using assms(1) registered_joined_run [OF registered_joined_init, of so es] by simp
  with assms(2) have "connected_users s c = Some [(''sid'', c)]"
    and "c \<in> set (rooms s ''chat_room'')"
    by (auto simp: registered_joined_def)
  then show ?thesis
    by (rule handle_connect_registered)
qed

theorem connect_registered_succeeds_witness:
  "connected_users (run utf8_strict init_state [Connect ''A'', Connect ''B'']) ''A'' \<noteq> None
   \<and> handle_connect (run utf8_strict init_state [Connect ''A'', Connect ''B'']) ''A''
       = Inr (run utf8_strict init_state [Connect ''A'', Connect ''B''], [])"
proof -
  have r: "connected_users (run utf8_strict init_state [Connect ''A'', Connect ''B'']) ''A'' \<noteq> None"
    by (simp add: run_eval)
  show ?thesis
    using r connect_registered_succeeds [OF refl r] by simp
qed

text \<open>
  \<open>A\<close> connects; a second connect event for \<open>A\<close> returns normally with the same state.
\<close>

theorem connect_registered_counterexample:
  "connected_users (run utf8_strict init_state [Connect ''A'']) ''A'' = Some [(''sid'', ''A'')]
   \<and> \<not> isl (handle_connect (run utf8_strict init_state [Connect ''A'']) ''A'')
   \<and> state_after (run utf8_strict init_state [Connect ''A''])
        (handle_connect (run utf8_strict init_state [Connect ''A'']) ''A'') = run utf8_strict init_state [Connect ''A'']"
  by (simp add: init_state_def handle_connect_def Let_def join_room_def)

section \<open>Disconnecting twice\<close>

lemma handle_disconnect_absent:
  assumes "connected_users s c = None" and "c \<notin> set (rooms s ''chat_room'')"
  shows "handle_disconnect s c =
     Inr (s, map (\<lambda>t. (t, ''user-left'', PDict [(py ''sid'', PStr (py c))])) (rooms s ''chat_room''))"
proof -
  have "removeAll c (rooms s ''chat_room'') = rooms s ''chat_room''"
    using assms(2) by simp
  with assms(1) show ?thesis
    by (simp add: handle_disconnect_result leave_room_def)
qed

lemma connected_users_after_disconnect:
  "connected_users (state_after s (handle_disconnect s c)) c = None"
  by (simp add: handle_disconnect_result)

text \<open>
  Claim C6. For every state and every connection \<open>c\<close>, a second \<open>handle_disconnect\<close> for
  \<open>c\<close> right after the first raises no error and returns the state the first one left:
  \<open>connected_users\<close> and the room membership are unchanged (the broadcast of the first
  call is sent again). More generally, whenever \<open>c\<close> is neither registered nor a member
  of \<open>chat_room\<close>, \<open>handle_disconnect\<close> raises no error and returns the state unchanged.
\<close>

theorem disconnect_twice_state_unchanged:
  "handle_disconnect (state_after s (handle_disconnect s c)) c =
     Inr (state_after s (handle_disconnect s c), sends_of (handle_disconnect s c))
   \<and> (connected_users s c = None \<and> c \<notin> set (rooms s ''chat_room'') \<longrightarrow>
        \<not> isl (handle_disconnect s c) \<and> state_after s (handle_disconnect s c) = s)"
proof -
  let ?s1 = "state_after s (handle_disconnect s c)"
  have absent: "connected_users ?s1 c = None"
    by (rule connected_users_after_disconnect)
  have left: "c \<notin> set (rooms ?s1 ''chat_room'')"
    by (simp add: rooms_after_disconnect)
  have "handle_disconnect ?s1 c =
      Inr (?s1, map (\<lambda>t. (t, ''user-left'', PDict [(py ''sid'', PStr (py c))])) (rooms ?s1 ''chat_room''))"
    using absent left by (rule handle_disconnect_absent)
  then have twice: "handle_disconnect ?s1 c = Inr (?s1, sends_of (handle_disconnect s c))"
    by (simp only: rooms_after_disconnect sends_of_disconnect)
  have "\<not> isl (handle_disconnect s c) \<and> state_after s (handle_disconnect s c) = s"
    if "connected_users s c = None" and "c \<notin> set (rooms s ''chat_room'')"
    using that by (simp add: handle_disconnect_absent)
  with twice show ?thesis by blast
qed

theorem disconnect_twice_state_unchanged_witness:
  "rooms (run utf8_strict init_state [Connect ''A'', Connect ''B'', Disconnect ''A'']) ''chat_room'' = [''B'']
   \<and> connected_users (run utf8_strict init_state [Connect ''A'', Connect ''B'', Disconnect ''A'']) ''A'' = None
   \<and> handle_disconnect (run utf8_strict init_state [Connect ''A'', Connect ''B'', Disconnect ''A'']) ''A''
     = Inr (run utf8_strict init_state [Connect ''A'', Connect ''B'', Disconnect ''A''],
            [(''B'', ''user-left'', PDict [(py ''sid'', PStr (py ''A''))])])"
  using disconnect_twice_state_unchanged [of "run utf8_strict init_state [Connect ''A'', Connect ''B'']" "''A''"]
  by (simp add: run_eval)

section \<open>The departure notification\<close>

text \<open>
  Claim C8 (as amended). For every state and every connection \<open>c\<close>, every packet that
  \<open>handle_disconnect\<close> sends is named \<open>user-left\<close> and its data is the dict with the single
  key \<open>sid\<close> bound to \<open>c\<close>.
\<close>

theorem disconnect_notification_payload:
  "\<forall>x \<in> set (sends_of (handle_disconnect s c)).
     event_name x = ''user-left'' \<and> data x = PDict [(py ''sid'', PStr (py c))]"
  by (auto simp: sends_of_disconnect event_name_def data_def)

theorem disconnect_notification_payload_witness:
  "map target (sends_of (handle_disconnect
        (run utf8_strict init_state [Connect ''A'', Connect ''B'', Connect ''C'']) ''C'')) = [''A'', ''B'']
   \<and> map event_name (sends_of (handle_disconnect
        (run utf8_strict init_state [Connect ''A'', Connect ''B'', Connect ''C'']) ''C''))
     = [''user-left'', ''user-left'']
   \<and> map data (sends_of (handle_disconnect
        (run utf8_strict init_state [Connect ''A'', Connect ''B'', Connect ''C'']) ''C''))
     = [PDict [(py ''sid'', PStr (py ''C''))], PDict [(py ''sid'', PStr (py ''C''))]]"
  using disconnect_notification_payload
    [of "run utf8_strict init_state [Connect ''A'', Connect ''B'', Connect ''C'']" "''C''"]
  by (simp add: run_eval target_def event_name_def data_def)

text \<open>
  With \<open>A\<close> and \<open>B\<close> connected, the notification \<open>A\<close> receives when \<open>B\<close> disconnects is
  \<open>{'sid': 'B'}\<close>: it is not \<open>{'connection_id': 'B'}\<close> and has no key \<open>connection_id\<close>.
\<close>

theorem disconnect_notification_payload_counterexample:
  "sends_of (handle_disconnect (run utf8_strict init_state [Connect ''A'', Connect ''B'']) ''B'')
     = [(''A'', ''user-left'', PDict [(py ''sid'', PStr (py ''B''))])]
   \<and> data (hd (sends_of (handle_disconnect (run utf8_strict init_state [Connect ''A'', Connect ''B'']) ''B'')))
       \<noteq> PDict [(py ''connection_id'', PStr (py ''B''))]
   \<and> py_get (data (hd (sends_of
          (handle_disconnect (run utf8_strict init_state [Connect ''A'', Connect ''B'']) ''B''))))
        (py ''connection_id'') = Inr PNone"
  by (simp add: run_eval data_def)

section \<open>Payloads that are not dicts, and the frame of a relay\<close>

text \<open>
  Claim C9. For every state, sender and payload that is not a dict, \<open>handle_signal\<close>
  raises \<open>AttributeError\<close> at the \<open>message.get('type')\<close> read, and no packet is sent.
\<close>

theorem relay_non_dict_raises:
  assumes "\<not> is_dict m"
  shows "handle_signal so s c m = Inl AttributeError \<and> sends_of (handle_signal so s c m) = []"
  using assms by (simp add: handle_signal_not_dict)

theorem relay_non_dict_raises_witness:
  "\<not> is_dict (PList [PStr (py ''offer'')])
   \<and> rooms (run utf8_strict init_state [Connect ''A'', Connect ''B'']) ''chat_room'' = [''A'', ''B'']
   \<and> handle_signal utf8_strict (run utf8_strict init_state [Connect ''A'', Connect ''B'']) ''A'' (PList [PStr (py ''offer'')])
       = Inl AttributeError
   \<and> sends_of (handle_signal utf8_strict (run utf8_strict init_state [Connect ''A'', Connect ''B'']) ''A''
        (PList [PStr (py ''offer'')])) = []"
proof -
  have n: "\<not> is_dict (PList [PStr (py ''offer'')])"
    by simp
  have r: "rooms (run utf8_strict init_state [Connect ''A'', Connect ''B'']) ''chat_room'' = [''A'', ''B'']"
    by (simp add: init_state_def handle_connect_def Let_def rooms_join_room)
  show ?thesis
    using n r relay_non_dict_raises [OF n, of utf8_strict
        "run utf8_strict init_state [Connect ''A'', Connect ''B'']" "''A''"]
    by blast
qed

text \<open>
  Claim C10. For every state, sender and payload, \<open>handle_signal\<close> leaves
  \<open>connected_users\<close> and the room membership as they were; whenever it returns, the state
  it returns is the state it was called in.
\<close>

theorem relay_state_unchanged:
  "connected_users (state_after s (handle_signal so s c m)) = connected_users s
   \<and> rooms (state_after s (handle_signal so s c m)) = rooms s
   \<and> (\<forall>s' out. handle_signal so s c m = Inr (s', out) \<longrightarrow> s' = s)"
  by (cases "py_get m (py ''type'')") (simp_all add: handle_signal_def)

theorem relay_state_unchanged_witness:
  "handle_signal utf8_strict (run utf8_strict init_state [Connect ''A'', Connect ''B'']) ''A'' (PDict [(py ''type'', PStr (py ''offer''))])
     = Inr (run utf8_strict init_state [Connect ''A'', Connect ''B''],
            [(''B'', ''signal'', PDict [(py ''type'', PStr (py ''offer''))])])
   \<and> rooms (state_after (run utf8_strict init_state [Connect ''A'', Connect ''B''])
        (handle_signal utf8_strict (run utf8_strict init_state [Connect ''A'', Connect ''B'']) ''A''
           (PDict [(py ''type'', PStr (py ''offer''))]))) ''chat_room'' = [''A'', ''B'']
   \<and> connected_users (state_after (run utf8_strict init_state [Connect ''A'', Connect ''B''])
        (handle_signal utf8_strict (run utf8_strict init_state [Connect ''A'', Connect ''B'']) ''A''
           (PDict [(py ''type'', PStr (py ''offer''))])))
     = connected_users (run utf8_strict init_state [Connect ''A'', Connect ''B''])"
  using relay_state_unchanged [of "run utf8_strict init_state [Connect ''A'', Connect ''B'']"
      utf8_strict "''A''"
      "PDict [(py ''type'', PStr (py ''offer''))]"]
  by (simp add: run_eval)

end
